theory Spec2Isabelle
  imports Main "HOL-Library.Sublist"
begin

section \<open>The request runner of \<^verbatim>\<open>getting_started.py\<close>\<close>

text \<open>
  The repository is one Python script, \<^verbatim>\<open>anthropic_api_fundamentals/getting_started.py\<close>:
  it loads a \<^verbatim>\<open>.env\<close> file, reads \<^verbatim>\<open>ANTHROPIC_API_KEY\<close>, builds a client, sends one
  request and prints the text of the first content block of the answer. The script is
  embedded statement by statement. What it calls in the packages \<^verbatim>\<open>dotenv\<close> and
  \<^verbatim>\<open>anthropic\<close> is not part of the repository: those calls are parameters of the
  model (the record \<open>sdk\<close>), each free to return a value or to raise. The text stream
  \<^verbatim>\<open>sys.stdout\<close>, which the interpreter sets up before the first line of the script, is a
  parameter too (the record \<open>text_stream\<close>).
\<close>

subsection \<open>Data\<close>

text \<open>
  Bytes are Isabelle's characters, so a \<open>string\<close> is a string of bytes: the names and
  values of environment variables, the ASCII literals of the script, and what reaches
  standard output. A Python \<^verbatim>\<open>str\<close> that is printed is a list of Unicode code points;
  \<open>unicode\<close> gives the \<^verbatim>\<open>str\<close> of an ASCII literal.
\<close>

type_synonym str = "nat list"

definition unicode :: "string \<Rightarrow> str" where
  "unicode s = map of_char s"

text \<open>\<^verbatim>\<open>os.environ\<close>: a dictionary from variable names to values.\<close>

type_synonym environ = "string \<rightharpoonup> string"

text \<open>
  The exceptions a run can end with. \<open>IndexError\<close> and \<open>UnicodeEncodeError\<close> are
  Python's own, raised by a subscript out of range and by a write of text that the
  stream cannot encode; the others are the failures of the client library that section
  4.1 of the specification names, and \<open>OtherError\<close> stands for any further exception of a
  library call, with its message.
\<close>

datatype error =
    IndexError
  | UnicodeEncodeError
  | AuthenticationError
  | TransportError
  | RateLimitError
  | OtherError string

text \<open>
  A message of the request is the dictionary literal of lines 21 to 24, kept as the list
  of its key-value pairs in the order written.
\<close>

type_synonym message_param = "(string \<times> string) list"

text \<open>The keyword arguments of \<^verbatim>\<open>client.messages.create\<close> (lines 18 to 25).\<close>

record request =
  model :: string
  max_tokens :: int
  messages :: "message_param list"

text \<open>
  Modelled from the spec: the content block types of \<^verbatim>\<open>anthropic.types\<close> are not in the
  repository. Section 3: "each segment is a tagged variant over at least {text segment,
  other segment kinds}". A \<open>TextBlock\<close> carries its attribute \<^verbatim>\<open>text\<close>, read
  by \<open>block_text\<close> (\<^verbatim>\<open>text\<close> is a keyword of Isabelle); every other kind is an
  \<open>OtherBlock\<close> with the name of its kind.
\<close>

datatype content_block =
    TextBlock (block_text: str)
  | OtherBlock string

text \<open>Of the response object the script reads the attribute \<open>content\<close> only.\<close>

record response =
  content :: "content_block list"

text \<open>
  The library calls of the script, as parameters. \<open>'c\<close> is the type of the client
  object. \<open>load_dotenv\<close> maps the process environment to the one it leaves behind;
  \<open>Anthropic\<close> receives the environment it can see and the \<^verbatim>\<open>api_key\<close> argument;
  \<open>messages_create\<close> receives the client and the request. \<open>Inl\<close> is a raised exception.
  \<open>http_requests\<close> is the number of HTTP requests the library sends to the service
  during that call of \<^verbatim>\<open>messages.create\<close>: none when it gives up before sending, several
  when it retries.
\<close>

record 'c sdk =
  load_dotenv :: "environ \<Rightarrow> error + environ"
  Anthropic :: "environ \<Rightarrow> string option \<Rightarrow> error + 'c"
  messages_create :: "'c \<Rightarrow> request \<Rightarrow> error + response"
  http_requests :: "'c \<Rightarrow> request \<Rightarrow> nat"

text \<open>
  The text stream \<^verbatim>\<open>sys.stdout\<close> as the interpreter set it up (from the locale and
  \<^verbatim>\<open>PYTHONIOENCODING\<close>, before the script starts). \<open>encode\<close> gives the bytes that a
  write of a \<^verbatim>\<open>str\<close> puts out, or \<open>None\<close> when the stream's codec cannot encode it and
  the write raises \<^verbatim>\<open>UnicodeEncodeError\<close>. \<open>terminator\<close> is what a write of \<^verbatim>\<open>"\n"\<close> puts
  out; every codec encodes the line feed, so this write has no failure.
\<close>

record text_stream =
  encode :: "str \<Rightarrow> string option"
  terminator :: string

text \<open>
  What the statements of the script do to the outside, one event each: a call of
  \<^verbatim>\<open>client.messages.create\<close> with its arguments, and a \<^verbatim>\<open>print\<close> that wrote its text.
\<close>

datatype effect =
    ApiCall request
  | Print str

text \<open>
  The state of the process: its environment, its standard output stream, the bytes
  written to standard output so far, the effects so far (oldest first), and the number of
  HTTP requests sent so far.
\<close>

record proc =
  os_environ :: environ
  sys_stdout :: text_stream
  stdout :: string
  trace :: "effect list"
  http_sent :: nat

subsection \<open>Built-ins\<close>

text \<open>\<^verbatim>\<open>os.getenv(key)\<close>: the value, or \<^verbatim>\<open>None\<close> when the variable is not set.\<close>

definition os_getenv :: "proc \<Rightarrow> string \<Rightarrow> string option" where
  "os_getenv p key = os_environ p key"

text \<open>
  \<^verbatim>\<open>xs[i]\<close> on a list: a negative index counts from the end, and an index out of range
  raises \<^verbatim>\<open>IndexError\<close>.
\<close>

definition getitem :: "'a list \<Rightarrow> int \<Rightarrow> error + 'a" where
  "getitem xs i =
     (if 0 \<le> i \<and> i < int (length xs) then Inr (xs ! nat i)
      else if i < 0 \<and> - int (length xs) \<le> i then Inr (xs ! nat (int (length xs) + i))
      else Inl IndexError)"

text \<open>\<^verbatim>\<open>isinstance(b, TextBlock)\<close>.\<close>

fun isinstance_TextBlock :: "content_block \<Rightarrow> bool" where
  "isinstance_TextBlock (TextBlock t) = True"
| "isinstance_TextBlock (OtherBlock k) = False"

text \<open>
  \<^verbatim>\<open>print(s)\<close> with a string argument writes the string and then the line terminator
  \<^verbatim>\<open>"\n"\<close> (the default \<^verbatim>\<open>end\<close>) to \<^verbatim>\<open>sys.stdout\<close>. The write of the string encodes
  all of it first: when that fails, \<^verbatim>\<open>UnicodeEncodeError\<close> is raised and nothing has been
  written.
\<close>

definition print :: "str \<Rightarrow> proc \<Rightarrow> error + proc" where
  "print s p =
     (case encode (sys_stdout p) s of
        None \<Rightarrow> Inl UnicodeEncodeError
      | Some bs \<Rightarrow>
          Inr (p\<lparr>stdout := stdout p @ bs @ terminator (sys_stdout p),
                 trace := trace p @ [Print s]\<rparr>))"

text \<open>
  Two codecs of Python with the error handler \<^verbatim>\<open>strict\<close>, character by character:
  UTF-8, which has no encoding for the surrogates U+D800 to U+DFFF, and ASCII, which has
  none for a code point above 127.
\<close>

definition utf8_char :: "nat \<Rightarrow> string option" where
  "utf8_char c =
     (if c < 0x80 then Some [char_of c]
      else if c < 0x800 then Some [char_of (0xC0 + c div 0x40), char_of (0x80 + c mod 0x40)]
      else if 0xD800 \<le> c \<and> c < 0xE000 then None
      else if c < 0x10000 then
        Some [char_of (0xE0 + c div 0x1000), char_of (0x80 + c div 0x40 mod 0x40),
              char_of (0x80 + c mod 0x40)]
      else if c < 0x110000 then
        Some [char_of (0xF0 + c div 0x40000), char_of (0x80 + c div 0x1000 mod 0x40),
              char_of (0x80 + c div 0x40 mod 0x40), char_of (0x80 + c mod 0x40)]
      else None)"

definition ascii_char :: "nat \<Rightarrow> string option" where
  "ascii_char c = (if c < 0x80 then Some [char_of c] else None)"

fun encode_with :: "(nat \<Rightarrow> string option) \<Rightarrow> str \<Rightarrow> string option" where
  "encode_with codec [] = Some []"
| "encode_with codec (c # cs) =
     (case codec c of
        None \<Rightarrow> None
      | Some bs \<Rightarrow>
          (case encode_with codec cs of None \<Rightarrow> None | Some rest \<Rightarrow> Some (bs @ rest)))"

text \<open>
  Standard output with the encoding UTF-8 (the usual one) and with ASCII (as under
  \<^verbatim>\<open>PYTHONIOENCODING=ascii\<close>), on a system whose line terminator is the line feed.
\<close>

definition utf8_stdout :: text_stream where
  "utf8_stdout = \<lparr>encode = encode_with utf8_char, terminator = [CHR 0x0A]\<rparr>"

definition ascii_stdout :: text_stream where
  "ascii_stdout = \<lparr>encode = encode_with ascii_char, terminator = [CHR 0x0A]\<rparr>"

subsection \<open>The script\<close>

text \<open>Lines 18 to 25: the arguments of the one request.\<close>

definition the_request :: request where
  "the_request =
     \<lparr>model = ''claude-haiku-4-5-20251001'',
      max_tokens = 8000,
      messages =
        [[(''role'', ''user''),
          (''content'', ''What should I search for to find the latest developments in C++?'')]]\<rparr>"

text \<open>
  Lines 8 to 26: load the \<^verbatim>\<open>.env\<close> file, read the key, build the client, send the request.
  An exception of a call ends the script there. The result is the exception or the
  response, with the process state at that point.
\<close>

definition send_request :: "'c sdk \<Rightarrow> proc \<Rightarrow> (error + response) \<times> proc" where
  "send_request lib p0 =
     (case load_dotenv lib (os_environ p0) of
        Inl e \<Rightarrow> (Inl e, p0)
      | Inr env' \<Rightarrow>
          let p1 = p0\<lparr>os_environ := env'\<rparr>;
              my_api_key = os_getenv p1 ''ANTHROPIC_API_KEY''
          in (case Anthropic lib (os_environ p1) my_api_key of
                Inl e \<Rightarrow> (Inl e, p1)
              | Inr client \<Rightarrow>
                  let p2 = p1\<lparr>trace := trace p1 @ [ApiCall the_request],
                              http_sent := http_sent p1 + http_requests lib client the_request\<rparr>
                  in (messages_create lib client the_request, p2)))"

text \<open>
  Lines 30 to 32: take the first content block and print its text when it is a
  \<^verbatim>\<open>TextBlock\<close>. The result is the exception the script ends with, if any.
\<close>

definition print_response :: "response \<Rightarrow> proc \<Rightarrow> error option \<times> proc" where
  "print_response r p =
     (case getitem (content r) 0 of
        Inl e \<Rightarrow> (Some e, p)
      | Inr content_block \<Rightarrow>
          if isinstance_TextBlock content_block
          then (case print (block_text content_block) p of
                  Inl e \<Rightarrow> (Some e, p)
                | Inr p' \<Rightarrow> (None, p'))
          else (None, p))"

text \<open>The whole script: nothing is caught between the two parts.\<close>

definition main :: "'c sdk \<Rightarrow> proc \<Rightarrow> error option \<times> proc" where
  "main lib p0 =
     (case send_request lib p0 of
        (Inl e, p) \<Rightarrow> (Some e, p)
      | (Inr r, p) \<Rightarrow> print_response r p)"

text \<open>
  A fresh process: the given standard output stream and environment, nothing written,
  nothing done.
\<close>

definition initial :: "text_stream \<Rightarrow> environ \<Rightarrow> proc" where
  "initial out env =
     \<lparr>os_environ = env, sys_stdout = out, stdout = [], trace = [], http_sent = 0\<rparr>"

definition run :: "'c sdk \<Rightarrow> text_stream \<Rightarrow> environ \<Rightarrow> error option \<times> proc" where
  "run lib out env = main lib (initial out env)"

text \<open>
  The exit status of the interpreter: 0 when the script runs to its end, 1 when an
  exception reaches the top level.
\<close>

fun exit_status :: "error option \<Rightarrow> nat" where
  "exit_status None = 0"
| "exit_status (Some e) = 1"

text \<open>The calls of the API and the prints in a trace.\<close>

fun is_ApiCall :: "effect \<Rightarrow> bool" where
  "is_ApiCall (ApiCall q) = True"
| "is_ApiCall (Print s) = False"

fun is_Print :: "effect \<Rightarrow> bool" where
  "is_Print (ApiCall q) = False"
| "is_Print (Print s) = True"

subsection \<open>Library behaviours used as examples\<close>

text \<open>
  A stand-in for the two packages, for runs on concrete inputs. \<open>stub_sdk d c a\<close> raises
  \<open>d\<close> in \<^verbatim>\<open>load_dotenv\<close> when \<open>d\<close> is an exception and otherwise leaves the
  environment as it is (no \<^verbatim>\<open>.env\<close> file); it raises \<open>c\<close> in the constructor when \<open>c\<close>
  is an exception and otherwise returns a client that is the key it was given; and it
  answers every request with \<open>a\<close>, after one HTTP request.
\<close>

definition stub_sdk :: "error option \<Rightarrow> error option \<Rightarrow> error + response \<Rightarrow> (string option) sdk" where
  "stub_sdk d c a =
     \<lparr>load_dotenv = (\<lambda>env. case d of None \<Rightarrow> Inr env | Some e \<Rightarrow> Inl e),
      Anthropic = (\<lambda>env key. case c of None \<Rightarrow> Inr key | Some e \<Rightarrow> Inl e),
      messages_create = (\<lambda>client q. a),
      http_requests = (\<lambda>client q. 1)\<rparr>"

text \<open>The same, for a library that sends \<open>n\<close> HTTP requests before it answers (it retries).\<close>

definition retrying_sdk :: "nat \<Rightarrow> error + response \<Rightarrow> (string option) sdk" where
  "retrying_sdk n a = (stub_sdk None None a)\<lparr>http_requests := (\<lambda>client q. n)\<rparr>"

text \<open>
  Environments: with the key of the specification's scenario, with another key and
  otherwise the same, without a key, and with an empty key.
\<close>

definition env_with_key :: environ where
  "env_with_key = [''ANTHROPIC_API_KEY'' \<mapsto> ''valid-key-123'']"

definition env_with_other_key :: environ where
  "env_with_other_key = [''ANTHROPIC_API_KEY'' \<mapsto> ''another-key-456'']"

definition env_without_key :: environ where
  "env_without_key = [''HOME'' \<mapsto> ''/root'']"

definition env_with_empty_key :: environ where
  "env_with_empty_key = [''ANTHROPIC_API_KEY'' \<mapsto> []]"

text \<open>
  Modelled from the spec: the client library is not part of the repository, so what it
  does with a missing credential is taken from the specification. Section 6: "absence or
  emptiness must surface as an authentication failure at call time (not validated
  earlier)"; section 4.1: "fails with an AuthenticationError-equivalent if the credential
  is missing or rejected by the remote service". A library meets this when its
  constructor accepts every key, and a request through a client that was built from a
  missing or empty key raises \<open>AuthenticationError\<close>.
\<close>

definition credential_checked_at_call :: "'c sdk \<Rightarrow> bool" where
  "credential_checked_at_call lib \<longleftrightarrow>
     (\<forall>env key. \<exists>client. Anthropic lib env key = Inr client) \<and>
     (\<forall>env key client q.
        Anthropic lib env key = Inr client \<longrightarrow> (key = None \<or> key = Some []) \<longrightarrow>
        messages_create lib client q = Inl AuthenticationError)"

text \<open>
  Modelled from the spec: a library of that kind, for runs on concrete inputs. It loads no
  \<^verbatim>\<open>.env\<close> file, its client is the key it was given, and a request raises
  \<open>AuthenticationError\<close> without an HTTP request when that key is missing or empty, and is
  answered with \<open>a\<close> after one HTTP request otherwise.
\<close>

definition keyed_sdk :: "error + response \<Rightarrow> (string option) sdk" where
  "keyed_sdk a =
     \<lparr>load_dotenv = (\<lambda>env. Inr env),
      Anthropic = (\<lambda>env key. Inr key),
      messages_create =
        (\<lambda>client q. if client = None \<or> client = Some [] then Inl AuthenticationError else a),
      http_requests = (\<lambda>client q. if client = None \<or> client = Some [] then 0 else 1)\<rparr>"

section \<open>Properties\<close>

subsection \<open>The codecs\<close>

lemma encode_with_ascii_literal:
  assumes "\<And>c. c < 0x80 \<Longrightarrow> codec c = Some [char_of c]"
    and "list_all (\<lambda>b. (of_char b :: nat) < 0x80) s"
  shows "encode_with codec (unicode s) = Some s"
  using assms(2)
  by (induction s) (simp_all add: unicode_def assms(1))

lemma utf8_ascii_literal:
  "list_all (\<lambda>b. (of_char b :: nat) < 0x80) s \<Longrightarrow> encode utf8_stdout (unicode s) = Some s"
  by (simp add: utf8_stdout_def encode_with_ascii_literal utf8_char_def)

lemma ascii_ascii_literal:
  "list_all (\<lambda>b. (of_char b :: nat) < 0x80) s \<Longrightarrow> encode ascii_stdout (unicode s) = Some s"
  by (simp add: ascii_stdout_def encode_with_ascii_literal ascii_char_def)

lemma utf8_hi: "encode utf8_stdout (unicode ''hi'') = Some ''hi''"
  by (rule utf8_ascii_literal) simp

lemma utf8_the_key: "encode utf8_stdout (unicode ''valid-key-123'') = Some ''valid-key-123''"
  by (rule utf8_ascii_literal) simp

lemma utf8_e_acute: "encode utf8_stdout [0xE9] = Some [CHR 0xC3, CHR 0xA9]"
  by (simp add: utf8_stdout_def utf8_char_def char_of_def bit_0)

lemma utf8_lone_surrogate: "encode utf8_stdout [0xD800] = None"
  by (simp add: utf8_stdout_def utf8_char_def)

lemma ascii_e_acute: "encode ascii_stdout [0xE9] = None"
  by (simp add: ascii_stdout_def ascii_char_def)

subsection \<open>The two parts of the script\<close>

lemma send_request_Inr:
  assumes "send_request lib p0 = (Inr r, p)"
  shows "\<exists>env' client.
           load_dotenv lib (os_environ p0) = Inr env' \<and>
           Anthropic lib env' (env' ''ANTHROPIC_API_KEY'') = Inr client \<and>
           messages_create lib client the_request = Inr r \<and>
           p = p0\<lparr>os_environ := env', trace := trace p0 @ [ApiCall the_request],
                  http_sent := http_sent p0 + http_requests lib client the_request\<rparr>"
  using assms
  by (auto simp: send_request_def os_getenv_def Let_def split: sum.splits)

lemma send_request_stdout:
  "stdout (snd (send_request lib p0)) = stdout p0 \<and>
   sys_stdout (snd (send_request lib p0)) = sys_stdout p0"
  by (simp add: send_request_def Let_def split: sum.splits)

lemma send_request_trace:
  "trace (snd (send_request lib p0)) = trace p0 \<or>
   trace (snd (send_request lib p0)) = trace p0 @ [ApiCall the_request]"
  by (simp add: send_request_def Let_def split: sum.splits)

lemma send_request_load_failed:
  "load_dotenv lib (os_environ p0) = Inl e \<Longrightarrow> send_request lib p0 = (Inl e, p0)"
  by (simp add: send_request_def)

lemma send_request_constructor_failed:
  "load_dotenv lib (os_environ p0) = Inr env' \<Longrightarrow>
   Anthropic lib env' (env' ''ANTHROPIC_API_KEY'') = Inl e \<Longrightarrow>
   send_request lib p0 = (Inl e, p0\<lparr>os_environ := env'\<rparr>)"
  by (simp add: send_request_def os_getenv_def)

lemma send_request_called:
  "load_dotenv lib (os_environ p0) = Inr env' \<Longrightarrow>
   Anthropic lib env' (env' ''ANTHROPIC_API_KEY'') = Inr client \<Longrightarrow>
   send_request lib p0 =
     (messages_create lib client the_request,
      p0\<lparr>os_environ := env', trace := trace p0 @ [ApiCall the_request],
         http_sent := http_sent p0 + http_requests lib client the_request\<rparr>)"
  by (simp add: send_request_def os_getenv_def)

lemma getitem_0_Nil: "getitem [] 0 = Inl IndexError"
  by (simp add: getitem_def)

lemma getitem_0_Cons: "getitem (x # xs) 0 = Inr x"
  by (simp add: getitem_def)

lemma print_response_empty:
  "content r = [] \<Longrightarrow> print_response r p = (Some IndexError, p)"
  by (simp add: print_response_def getitem_0_Nil)

lemma print_response_text:
  "content r = TextBlock t # rest \<Longrightarrow> encode (sys_stdout p) t = Some bs \<Longrightarrow>
   print_response r p =
     (None, p\<lparr>stdout := stdout p @ bs @ terminator (sys_stdout p), trace := trace p @ [Print t]\<rparr>)"
  by (simp add: print_response_def getitem_0_Cons print_def)

lemma print_response_unencodable:
  "content r = TextBlock t # rest \<Longrightarrow> encode (sys_stdout p) t = None \<Longrightarrow>
   print_response r p = (Some UnicodeEncodeError, p)"
  by (simp add: print_response_def getitem_0_Cons print_def)

lemma print_response_other:
  "content r = b # rest \<Longrightarrow> \<not> isinstance_TextBlock b \<Longrightarrow> print_response r p = (None, p)"
  by (simp add: print_response_def getitem_0_Cons)

lemma print_response_take_1:
  assumes "take 1 (content r1) = take 1 (content r2)"
    and "stdout p = stdout p'"
    and "sys_stdout p = sys_stdout p'"
  shows "fst (print_response r1 p) = fst (print_response r2 p') \<and>
         stdout (snd (print_response r1 p)) = stdout (snd (print_response r2 p'))"
  using assms
  by (cases "content r1"; cases "content r2")
     (simp_all add: print_response_def getitem_0_Nil getitem_0_Cons print_def
        split: option.splits)

lemma print_response_stdout:
  "stdout (snd (print_response r p)) = stdout p \<or>
   (\<exists>t rest bs. content r = TextBlock t # rest \<and> encode (sys_stdout p) t = Some bs \<and>
      stdout (snd (print_response r p)) = stdout p @ bs @ terminator (sys_stdout p))"
proof (cases "content r")
  case Nil
  then show ?thesis by (simp add: print_response_empty)
next
  case (Cons b rest)
  then show ?thesis
    by (cases b)
       (simp_all add: print_response_def getitem_0_Cons print_def split: option.splits)
qed

lemma print_response_trace:
  "trace (snd (print_response r p)) = trace p \<or>
   (\<exists>t. trace (snd (print_response r p)) = trace p @ [Print t])"
  by (cases "getitem (content r) 0")
     (simp_all add: print_response_def print_def split: option.splits)

lemma print_response_frame:
  "os_environ (snd (print_response r p)) = os_environ p \<and>
   http_sent (snd (print_response r p)) = http_sent p"
  by (cases "getitem (content r) 0")
     (simp_all add: print_response_def print_def split: option.splits)

lemma print_response_failed:
  "fst (print_response r p) = Some e \<Longrightarrow> snd (print_response r p) = p"
  by (cases "getitem (content r) 0")
     (simp_all add: print_response_def print_def split: if_splits option.splits)

lemma main_received:
  "send_request lib p0 = (Inr r, p) \<Longrightarrow> main lib p0 = print_response r p"
  by (simp add: main_def)

lemma main_failed:
  "send_request lib p0 = (Inl e, p) \<Longrightarrow> main lib p0 = (Some e, p)"
  by (simp add: main_def)

lemma send_request_stub:
  "send_request (stub_sdk None None a) (initial out env) =
     (a, \<lparr>os_environ = env, sys_stdout = out, stdout = [], trace = [ApiCall the_request],
          http_sent = 1\<rparr>)"
  by (simp add: send_request_def stub_sdk_def initial_def os_getenv_def)

lemma run_stub:
  "run (stub_sdk None None (Inr r)) out env =
     print_response r
       \<lparr>os_environ = env, sys_stdout = out, stdout = [], trace = [ApiCall the_request],
        http_sent = 1\<rparr>"
  by (simp add: run_def main_received [OF send_request_stub])

lemma received_state:
  assumes "send_request lib (initial out env) = (Inr r, p)"
  shows "stdout p = [] \<and> trace p = [ApiCall the_request] \<and> sys_stdout p = out"
proof -
  from send_request_Inr [OF assms] obtain env' client where
    "p = (initial out env)\<lparr>os_environ := env',
           trace := trace (initial out env) @ [ApiCall the_request],
           http_sent := http_sent (initial out env) + http_requests lib client the_request\<rparr>"
    by blast
  then show ?thesis by (simp add: initial_def)
qed

lemma run_received:
  "send_request lib (initial out env) = (Inr r, p) \<Longrightarrow> run lib out env = print_response r p"
  by (simp add: run_def main_received)

lemma run_stub_text:
  "encode out t = Some bs \<Longrightarrow>
   run (stub_sdk None None (Inr \<lparr>content = TextBlock t # rest\<rparr>)) out env =
     (None, \<lparr>os_environ = env, sys_stdout = out, stdout = bs @ terminator out,
             trace = [ApiCall the_request, Print t], http_sent = 1\<rparr>)"
  by (simp add: run_stub print_response_def getitem_0_Cons print_def)

subsection \<open>Printing the first content block\<close>

text \<open>
  C1 (as amended). Let the response the script receives start with a text block. When
  standard output can encode the text, the script ends normally, and standard output
  holds, byte for byte, the encoding of that text and after it the one line terminator
  that \<^verbatim>\<open>print\<close> appends, and nothing else; the one \<^verbatim>\<open>print\<close> is of that text unchanged.
  When standard output cannot encode the text, \<^verbatim>\<open>print\<close> raises \<open>UnicodeEncodeError\<close>,
  the run ends with it (exit status 1) and nothing is written.
\<close>

theorem first_text_block_printed:
  assumes "send_request lib (initial out env) = (Inr r, p)"
    and "content r = TextBlock t # rest"
  shows "(encode out t = Some bs \<longrightarrow>
            fst (run lib out env) = None \<and>
            stdout (snd (run lib out env)) = bs @ terminator out \<and>
            filter is_Print (trace (snd (run lib out env))) = [Print t]) \<and>
         (encode out t = None \<longrightarrow>
            fst (run lib out env) = Some UnicodeEncodeError \<and>
            exit_status (fst (run lib out env)) = 1 \<and>
            stdout (snd (run lib out env)) = [] \<and>
            filter is_Print (trace (snd (run lib out env))) = [])"
proof (intro conjI impI)
  note st = received_state [OF assms(1)]
  note run = run_received [OF assms(1)]
  {
    assume enc: "encode out t = Some bs"
    with st have "print_response r p =
        (None, p\<lparr>stdout := stdout p @ bs @ terminator (sys_stdout p), trace := trace p @ [Print t]\<rparr>)"
      using print_response_text [OF assms(2), of p bs] by simp
    with st run
    show "fst (run lib out env) = None"
      and "stdout (snd (run lib out env)) = bs @ terminator out"
      and "filter is_Print (trace (snd (run lib out env))) = [Print t]"
      by simp_all
  }
  {
    assume enc: "encode out t = None"
    with st have "print_response r p = (Some UnicodeEncodeError, p)"
      using print_response_unencodable [OF assms(2), of p] by simp
    with st run
    show "fst (run lib out env) = Some UnicodeEncodeError"
      and "exit_status (fst (run lib out env)) = 1"
      and "stdout (snd (run lib out env)) = []"
      and "filter is_Print (trace (snd (run lib out env))) = []"
      by simp_all
  }
qed

theorem first_text_block_printed_witness:
  "fst (run (stub_sdk None None (Inr \<lparr>content = [TextBlock [0xE9], OtherBlock ''tool_use'']\<rparr>))
          utf8_stdout env_with_key) = None \<and>
   stdout (snd (run (stub_sdk None None (Inr \<lparr>content = [TextBlock [0xE9], OtherBlock ''tool_use'']\<rparr>))
          utf8_stdout env_with_key)) = [CHR 0xC3, CHR 0xA9, CHR 0x0A] \<and>
   filter is_Print (trace (snd (run (stub_sdk None None
          (Inr \<lparr>content = [TextBlock [0xE9], OtherBlock ''tool_use'']\<rparr>)) utf8_stdout env_with_key)))
     = [Print [0xE9]] \<and>
   fst (run (stub_sdk None None (Inr \<lparr>content = [TextBlock [0xE9], OtherBlock ''tool_use'']\<rparr>))
          ascii_stdout env_with_key) = Some UnicodeEncodeError \<and>
   exit_status (fst (run (stub_sdk None None
          (Inr \<lparr>content = [TextBlock [0xE9], OtherBlock ''tool_use'']\<rparr>)) ascii_stdout env_with_key)) = 1 \<and>
   stdout (snd (run (stub_sdk None None (Inr \<lparr>content = [TextBlock [0xE9], OtherBlock ''tool_use'']\<rparr>))
          ascii_stdout env_with_key)) = [] \<and>
   filter is_Print (trace (snd (run (stub_sdk None None
          (Inr \<lparr>content = [TextBlock [0xE9], OtherBlock ''tool_use'']\<rparr>)) ascii_stdout env_with_key)))
     = []"
proof -
  let ?r = "\<lparr>content = [TextBlock [0xE9], OtherBlock ''tool_use'']\<rparr>"
  have shape: "content ?r = TextBlock [0xE9] # [OtherBlock ''tool_use'']" by simp
  from first_text_block_printed
         [OF send_request_stub [of "Inr ?r" utf8_stdout env_with_key] shape,
          of "[CHR 0xC3, CHR 0xA9]"]
       first_text_block_printed
         [OF send_request_stub [of "Inr ?r" ascii_stdout env_with_key] shape]
       utf8_e_acute ascii_e_acute
  show ?thesis by (simp add: utf8_stdout_def)
qed

text \<open>
  The claim C1 as written fails twice. For the response whose only block is the text
  \<^verbatim>\<open>hi\<close>, standard output (UTF-8) is not the bytes of \<^verbatim>\<open>hi\<close>: a line terminator
  follows them. And for the response whose only block is the text of the one character
  U+00E9, with standard output in ASCII, nothing is written and the run ends with
  \<open>UnicodeEncodeError\<close>.
\<close>

theorem text_only_written_counterexample:
  "encode utf8_stdout (unicode ''hi'') = Some ''hi'' \<and>
   stdout (snd (run (stub_sdk None None (Inr \<lparr>content = [TextBlock (unicode ''hi'')]\<rparr>))
                    utf8_stdout env_with_key)) \<noteq> ''hi'' \<and>
   fst (run (stub_sdk None None (Inr \<lparr>content = [TextBlock [0xE9]]\<rparr>)) ascii_stdout env_with_key)
     = Some UnicodeEncodeError \<and>
   stdout (snd (run (stub_sdk None None (Inr \<lparr>content = [TextBlock [0xE9]]\<rparr>))
                    ascii_stdout env_with_key)) = []"
proof -
  have "stdout (snd (run (stub_sdk None None (Inr \<lparr>content = [TextBlock (unicode ''hi'')]\<rparr>))
                    utf8_stdout env_with_key)) = ''hi'' @ terminator utf8_stdout"
    by (simp add: run_stub_text [OF utf8_hi])
  moreover have
    "run (stub_sdk None None (Inr \<lparr>content = [TextBlock [0xE9]]\<rparr>)) ascii_stdout env_with_key =
       (Some UnicodeEncodeError,
        \<lparr>os_environ = env_with_key, sys_stdout = ascii_stdout, stdout = [],
         trace = [ApiCall the_request], http_sent = 1\<rparr>)"
    using ascii_e_acute by (simp add: run_stub print_response_unencodable)
  ultimately show ?thesis
    using utf8_hi by (simp add: utf8_stdout_def)
qed

text \<open>
  C2. When the response the script receives is not empty and its first block is not a text
  block, the script ends normally, with exit status 0, and writes nothing: standard output
  is empty and nothing is printed.
\<close>

theorem first_block_not_text_silent:
  assumes "send_request lib (initial out env) = (Inr r, p)"
    and "content r = b # rest"
    and "\<not> isinstance_TextBlock b"
  shows "fst (run lib out env) = None \<and>
         exit_status (fst (run lib out env)) = 0 \<and>
         stdout (snd (run lib out env)) = [] \<and>
         filter is_Print (trace (snd (run lib out env))) = []"
proof -
  have "run lib out env = (None, p)"
    using assms by (simp add: run_received print_response_other)
  with received_state [OF assms(1)] show ?thesis
    by simp
qed

theorem first_block_not_text_silent_witness:
  "\<not> isinstance_TextBlock (OtherBlock ''tool_use'') \<and>
   fst (run (stub_sdk None None
          (Inr \<lparr>content = [OtherBlock ''tool_use'', TextBlock (unicode ''hi'')]\<rparr>))
          utf8_stdout env_with_key) = None \<and>
   exit_status (fst (run (stub_sdk None None
          (Inr \<lparr>content = [OtherBlock ''tool_use'', TextBlock (unicode ''hi'')]\<rparr>))
          utf8_stdout env_with_key)) = 0 \<and>
   stdout (snd (run (stub_sdk None None
          (Inr \<lparr>content = [OtherBlock ''tool_use'', TextBlock (unicode ''hi'')]\<rparr>))
          utf8_stdout env_with_key)) = [] \<and>
   filter is_Print (trace (snd (run (stub_sdk None None
          (Inr \<lparr>content = [OtherBlock ''tool_use'', TextBlock (unicode ''hi'')]\<rparr>))
          utf8_stdout env_with_key))) = []"
proof -
  let ?r = "\<lparr>content = [OtherBlock ''tool_use'', TextBlock (unicode ''hi'')]\<rparr>"
  have shape: "content ?r = OtherBlock ''tool_use'' # [TextBlock (unicode ''hi'')]" by simp
  have other: "\<not> isinstance_TextBlock (OtherBlock ''tool_use'')" by simp
  from first_block_not_text_silent
         [OF send_request_stub [of "Inr ?r" utf8_stdout env_with_key] shape other] other
  show ?thesis by simp
qed

text \<open>
  C3. When the content list of the response the script receives is empty, reading its
  first element raises \<open>IndexError\<close>, the script ends with that exception, and nothing
  is written to standard output.
\<close>

theorem empty_content_index_error:
  assumes "send_request lib (initial out env) = (Inr r, p)"
    and "content r = []"
  shows "getitem (content r) 0 = Inl IndexError \<and>
         fst (run lib out env) = Some IndexError \<and>
         stdout (snd (run lib out env)) = [] \<and>
         filter is_Print (trace (snd (run lib out env))) = []"
proof -
  have "run lib out env = (Some IndexError, p)"
    using assms by (simp add: run_received print_response_empty)
  with received_state [OF assms(1)] assms(2) show ?thesis
    by (simp add: getitem_0_Nil)
qed

theorem empty_content_index_error_witness:
  "getitem (content \<lparr>content = []\<rparr>) 0 = Inl IndexError \<and>
   fst (run (stub_sdk None None (Inr \<lparr>content = []\<rparr>)) utf8_stdout env_with_key)
     = Some IndexError \<and>
   stdout (snd (run (stub_sdk None None (Inr \<lparr>content = []\<rparr>)) utf8_stdout env_with_key)) = [] \<and>
   filter is_Print (trace (snd (run (stub_sdk None None (Inr \<lparr>content = []\<rparr>))
          utf8_stdout env_with_key))) = []"
proof -
  have shape: "content \<lparr>content = []\<rparr> = []" by simp
  from empty_content_index_error
         [OF send_request_stub [of "Inr \<lparr>content = []\<rparr>" utf8_stdout env_with_key] shape]
  show ?thesis by simp
qed

subsection \<open>Failures\<close>

lemma run_failed_stdout:
  assumes "fst (run lib out env) = Some e"
  shows "stdout (snd (run lib out env)) = [] \<and>
         filter is_Print (trace (snd (run lib out env))) = []"
proof (cases "send_request lib (initial out env)")
  case (Pair res p)
  show ?thesis
  proof (cases res)
    case (Inl e')
    with Pair have run: "run lib out env = (Some e', p)"
      by (simp add: run_def main_failed)
    from send_request_stdout [of lib "initial out env"] Pair have "stdout p = []"
      by (simp add: initial_def)
    moreover from send_request_trace [of lib "initial out env"] Pair
    have "filter is_Print (trace p) = []"
      by (auto simp: initial_def)
    ultimately show ?thesis using run by simp
  next
    case (Inr r)
    with Pair have recv: "send_request lib (initial out env) = (Inr r, p)" by simp
    then have run: "run lib out env = print_response r p" by (rule run_received)
    with assms have "snd (print_response r p) = p"
      by (simp add: print_response_failed)
    with run received_state [OF recv] show ?thesis by simp
  qed
qed

text \<open>
  C4. Let the client library treat the credential as the specification says (its
  constructor accepts every key; a request through a client built from a missing or
  empty key raises an authentication failure). If, once the \<^verbatim>\<open>.env\<close> file is loaded,
  \<^verbatim>\<open>ANTHROPIC_API_KEY\<close> is not set or is empty, then the script does not stop before the
  API call: the client is built, the one call is made, and the run ends there with
  \<open>AuthenticationError\<close>, a non-zero exit status and an empty standard output.
\<close>

theorem missing_credential_fails_at_call:
  assumes "credential_checked_at_call lib"
    and "load_dotenv lib env = Inr env'"
    and "env' ''ANTHROPIC_API_KEY'' = None \<or> env' ''ANTHROPIC_API_KEY'' = Some []"
  shows "(\<exists>client. Anthropic lib env' (env' ''ANTHROPIC_API_KEY'') = Inr client) \<and>
         trace (snd (run lib out env)) = [ApiCall the_request] \<and>
         fst (run lib out env) = Some AuthenticationError \<and>
         exit_status (fst (run lib out env)) \<noteq> 0 \<and>
         stdout (snd (run lib out env)) = []"
proof -
  from assms(1) obtain client where
    built: "Anthropic lib env' (env' ''ANTHROPIC_API_KEY'') = Inr client"
    unfolding credential_checked_at_call_def by blast
  with assms(1,3) have "messages_create lib client the_request = Inl AuthenticationError"
    unfolding credential_checked_at_call_def by blast
  with send_request_called [of lib "initial out env" env' client] assms(2) built
  have "send_request lib (initial out env) =
          (Inl AuthenticationError,
           (initial out env)\<lparr>os_environ := env',
              trace := trace (initial out env) @ [ApiCall the_request],
              http_sent := http_sent (initial out env) + http_requests lib client the_request\<rparr>)"
    by (simp add: initial_def)
  then have "run lib out env =
          (Some AuthenticationError,
           (initial out env)\<lparr>os_environ := env',
              trace := trace (initial out env) @ [ApiCall the_request],
              http_sent := http_sent (initial out env) + http_requests lib client the_request\<rparr>)"
    by (simp add: run_def main_failed)
  with built show ?thesis by (simp add: initial_def)
qed

theorem missing_credential_fails_at_call_witness:
  "credential_checked_at_call (keyed_sdk (Inr \<lparr>content = [TextBlock (unicode ''hi'')]\<rparr>)) \<and>
   env_without_key ''ANTHROPIC_API_KEY'' = None \<and>
   env_with_empty_key ''ANTHROPIC_API_KEY'' = Some [] \<and>
   trace (snd (run (keyed_sdk (Inr \<lparr>content = [TextBlock (unicode ''hi'')]\<rparr>))
                   utf8_stdout env_without_key))
     = [ApiCall the_request] \<and>
   fst (run (keyed_sdk (Inr \<lparr>content = [TextBlock (unicode ''hi'')]\<rparr>)) utf8_stdout env_without_key)
     = Some AuthenticationError \<and>
   exit_status (fst (run (keyed_sdk (Inr \<lparr>content = [TextBlock (unicode ''hi'')]\<rparr>))
                         utf8_stdout env_without_key)) \<noteq> 0 \<and>
   stdout (snd (run (keyed_sdk (Inr \<lparr>content = [TextBlock (unicode ''hi'')]\<rparr>))
                    utf8_stdout env_without_key)) = [] \<and>
   fst (run (keyed_sdk (Inr \<lparr>content = [TextBlock (unicode ''hi'')]\<rparr>)) utf8_stdout env_with_empty_key)
     = Some AuthenticationError \<and>
   stdout (snd (run (keyed_sdk (Inr \<lparr>content = [TextBlock (unicode ''hi'')]\<rparr>))
                    utf8_stdout env_with_empty_key)) = []"
proof -
  let ?lib = "keyed_sdk (Inr \<lparr>content = [TextBlock (unicode ''hi'')]\<rparr>)"
  have contract: "credential_checked_at_call ?lib"
    by (auto simp: credential_checked_at_call_def keyed_sdk_def)
  have loaded: "load_dotenv ?lib env = Inr env" for env
    by (simp add: keyed_sdk_def)
  have absent: "env_without_key ''ANTHROPIC_API_KEY'' = None"
    by (simp add: env_without_key_def)
  have empty: "env_with_empty_key ''ANTHROPIC_API_KEY'' = Some []"
    by (simp add: env_with_empty_key_def)
  from missing_credential_fails_at_call [OF contract loaded, of env_without_key utf8_stdout]
       missing_credential_fails_at_call [OF contract loaded, of env_with_empty_key utf8_stdout]
       absent empty contract
  show ?thesis by simp
qed

text \<open>
  C5. Nothing is caught. Whatever the libraries and the output stream do: an exception of
  \<^verbatim>\<open>load_dotenv\<close>, of the client constructor or of \<^verbatim>\<open>messages.create\<close> is the exception
  the run ends with, and so are the \<open>IndexError\<close> of an empty content list and the
  \<open>UnicodeEncodeError\<close> of a text that cannot be encoded; and every run that ends with
  an exception has a non-zero exit status, an empty standard output and nothing printed.
\<close>

theorem failures_propagate:
  "(load_dotenv lib env = Inl e \<longrightarrow> fst (run lib out env) = Some e) \<and>
   (load_dotenv lib env = Inr env' \<and> Anthropic lib env' (env' ''ANTHROPIC_API_KEY'') = Inl e
      \<longrightarrow> fst (run lib out env) = Some e) \<and>
   (load_dotenv lib env = Inr env' \<and> Anthropic lib env' (env' ''ANTHROPIC_API_KEY'') = Inr client \<and>
    messages_create lib client the_request = Inl e
      \<longrightarrow> fst (run lib out env) = Some e) \<and>
   (send_request lib (initial out env) = (Inr r, p) \<and> content r = []
      \<longrightarrow> fst (run lib out env) = Some IndexError) \<and>
   (send_request lib (initial out env) = (Inr r, p) \<and> content r = TextBlock t # rest \<and>
    encode out t = None
      \<longrightarrow> fst (run lib out env) = Some UnicodeEncodeError) \<and>
   (fst (run lib out env) = Some e
      \<longrightarrow> exit_status (fst (run lib out env)) \<noteq> 0 \<and>
          stdout (snd (run lib out env)) = [] \<and>
          filter is_Print (trace (snd (run lib out env))) = [])"
proof (intro conjI impI)
  assume "load_dotenv lib env = Inl e"
  then have "send_request lib (initial out env) = (Inl e, initial out env)"
    by (simp add: send_request_load_failed initial_def)
  then show "fst (run lib out env) = Some e"
    by (simp add: run_def main_failed)
next
  assume "load_dotenv lib env = Inr env' \<and>
          Anthropic lib env' (env' ''ANTHROPIC_API_KEY'') = Inl e"
  then have "send_request lib (initial out env) = (Inl e, (initial out env)\<lparr>os_environ := env'\<rparr>)"
    by (simp add: send_request_constructor_failed initial_def)
  then show "fst (run lib out env) = Some e"
    by (simp add: run_def main_failed)
next
  assume "load_dotenv lib env = Inr env' \<and>
          Anthropic lib env' (env' ''ANTHROPIC_API_KEY'') = Inr client \<and>
          messages_create lib client the_request = Inl e"
  then have "fst (send_request lib (initial out env)) = Inl e"
    using send_request_called [of lib "initial out env" env' client]
    by (simp add: initial_def)
  then show "fst (run lib out env) = Some e"
    by (cases "send_request lib (initial out env)") (simp add: run_def main_failed)
next
  assume "send_request lib (initial out env) = (Inr r, p) \<and> content r = []"
  then show "fst (run lib out env) = Some IndexError"
    by (simp add: run_received print_response_empty)
next
  assume a: "send_request lib (initial out env) = (Inr r, p) \<and> content r = TextBlock t # rest \<and>
             encode out t = None"
  then have "sys_stdout p = out"
    using received_state by blast
  with a show "fst (run lib out env) = Some UnicodeEncodeError"
    by (simp add: run_received print_response_unencodable)
next
  assume "fst (run lib out env) = Some e"
  then show "exit_status (fst (run lib out env)) \<noteq> 0" by simp
next
  assume "fst (run lib out env) = Some e"
  then show "stdout (snd (run lib out env)) = []"
    using run_failed_stdout by blast
next
  assume "fst (run lib out env) = Some e"
  then show "filter is_Print (trace (snd (run lib out env))) = []"
    using run_failed_stdout by blast
qed

theorem failures_propagate_witness:
  "fst (run (stub_sdk (Some (OtherError ''unreadable .env'')) None (Inr \<lparr>content = []\<rparr>))
        utf8_stdout env_with_key) = Some (OtherError ''unreadable .env'') \<and>
   fst (run (stub_sdk None (Some (OtherError ''bad proxy'')) (Inr \<lparr>content = []\<rparr>))
        utf8_stdout env_with_key) = Some (OtherError ''bad proxy'') \<and>
   fst (run (stub_sdk None None (Inl RateLimitError)) utf8_stdout env_with_key)
     = Some RateLimitError \<and>
   fst (run (stub_sdk None None (Inr \<lparr>content = []\<rparr>)) utf8_stdout env_with_key)
     = Some IndexError \<and>
   fst (run (stub_sdk None None (Inr \<lparr>content = [TextBlock [0xD800]]\<rparr>)) utf8_stdout env_with_key)
     = Some UnicodeEncodeError \<and>
   exit_status (fst (run (stub_sdk None None (Inl RateLimitError)) utf8_stdout env_with_key)) \<noteq> 0 \<and>
   stdout (snd (run (stub_sdk None None (Inl RateLimitError)) utf8_stdout env_with_key)) = [] \<and>
   filter is_Print (trace (snd (run (stub_sdk None None (Inl RateLimitError))
                                    utf8_stdout env_with_key))) = []"
proof -
  let ?empty = "\<lparr>content = []\<rparr>"
  let ?bad = "\<lparr>content = [TextBlock [0xD800]]\<rparr>"
  have load: "fst (run (stub_sdk (Some (OtherError ''unreadable .env'')) None (Inr ?empty))
                utf8_stdout env_with_key) = Some (OtherError ''unreadable .env'')"
    using failures_propagate
      [where lib = "stub_sdk (Some (OtherError ''unreadable .env'')) None (Inr ?empty)"
         and env = env_with_key and e = "OtherError ''unreadable .env''" and out = utf8_stdout]
    by (simp add: stub_sdk_def)
  have ctor: "fst (run (stub_sdk None (Some (OtherError ''bad proxy'')) (Inr ?empty))
                utf8_stdout env_with_key) = Some (OtherError ''bad proxy'')"
    using failures_propagate
      [where lib = "stub_sdk None (Some (OtherError ''bad proxy'')) (Inr ?empty)"
         and env = env_with_key and e = "OtherError ''bad proxy''" and env' = env_with_key
         and out = utf8_stdout]
    by (simp add: stub_sdk_def)
  have call: "fst (run (stub_sdk None None (Inl RateLimitError)) utf8_stdout env_with_key)
                = Some RateLimitError"
    using failures_propagate
      [where lib = "stub_sdk None None (Inl RateLimitError)" and env = env_with_key
         and e = RateLimitError and env' = env_with_key
         and client = "env_with_key ''ANTHROPIC_API_KEY''" and out = utf8_stdout]
    by (simp add: stub_sdk_def)
  have index: "fst (run (stub_sdk None None (Inr ?empty)) utf8_stdout env_with_key)
                 = Some IndexError"
    using failures_propagate
      [where lib = "stub_sdk None None (Inr ?empty)" and env = env_with_key and r = ?empty
         and out = utf8_stdout
         and p = "\<lparr>os_environ = env_with_key, sys_stdout = utf8_stdout, stdout = [],
                   trace = [ApiCall the_request], http_sent = 1\<rparr>"]
    by (simp add: send_request_stub)
  have enc: "fst (run (stub_sdk None None (Inr ?bad)) utf8_stdout env_with_key)
               = Some UnicodeEncodeError"
    using failures_propagate
      [where lib = "stub_sdk None None (Inr ?bad)" and env = env_with_key and r = ?bad
         and out = utf8_stdout and t = "[0xD800]" and rest = "[]"
         and p = "\<lparr>os_environ = env_with_key, sys_stdout = utf8_stdout, stdout = [],
                   trace = [ApiCall the_request], http_sent = 1\<rparr>"]
      utf8_lone_surrogate
    by (simp add: send_request_stub)
  have silent:
    "exit_status (fst (run (stub_sdk None None (Inl RateLimitError)) utf8_stdout env_with_key)) \<noteq> 0 \<and>
     stdout (snd (run (stub_sdk None None (Inl RateLimitError)) utf8_stdout env_with_key)) = [] \<and>
     filter is_Print (trace (snd (run (stub_sdk None None (Inl RateLimitError))
                                      utf8_stdout env_with_key))) = []"
    using failures_propagate
      [where lib = "stub_sdk None None (Inl RateLimitError)" and env = env_with_key
         and e = RateLimitError and out = utf8_stdout]
      call
    by blast
  from load ctor call index enc silent show ?thesis by blast
qed

subsection \<open>The request and the effects of a run\<close>

lemma run_load_failed:
  "load_dotenv lib env = Inl e \<Longrightarrow> run lib out env = (Some e, initial out env)"
  using send_request_load_failed [of lib "initial out env" e]
  by (simp add: run_def main_failed initial_def)

lemma run_constructor_failed:
  "load_dotenv lib env = Inr env' \<Longrightarrow>
   Anthropic lib env' (env' ''ANTHROPIC_API_KEY'') = Inl e \<Longrightarrow>
   run lib out env = (Some e, (initial out env)\<lparr>os_environ := env'\<rparr>)"
  using send_request_constructor_failed [of lib "initial out env" env' e]
  by (simp add: run_def main_failed initial_def)

lemma run_called:
  assumes "load_dotenv lib env = Inr env'"
    and "Anthropic lib env' (env' ''ANTHROPIC_API_KEY'') = Inr client"
  shows "filter is_ApiCall (trace (snd (run lib out env))) = [ApiCall the_request] \<and>
         http_sent (snd (run lib out env)) = http_requests lib client the_request \<and>
         os_environ (snd (run lib out env)) = env'"
proof -
  let ?p = "(initial out env)\<lparr>os_environ := env',
              trace := trace (initial out env) @ [ApiCall the_request],
              http_sent := http_sent (initial out env) + http_requests lib client the_request\<rparr>"
  have sr: "send_request lib (initial out env) = (messages_create lib client the_request, ?p)"
    using send_request_called [of lib "initial out env" env' client] assms
    by (simp add: initial_def)
  have p: "trace ?p = [ApiCall the_request]"
    "http_sent ?p = http_requests lib client the_request" "os_environ ?p = env'"
    by (simp_all add: initial_def)
  show ?thesis
  proof (cases "messages_create lib client the_request")
    case (Inl e)
    with sr have "run lib out env = (Some e, ?p)"
      by (simp add: run_def main_failed)
    with p show ?thesis by simp
  next
    case (Inr r)
    with sr have "run lib out env = print_response r ?p"
      by (simp add: run_def main_received)
    with print_response_trace [of r ?p] print_response_frame [of r ?p] p
    show ?thesis by auto
  qed
qed

lemma run_trace:
  "trace (snd (run lib out env)) = [] \<or>
   trace (snd (run lib out env)) = [ApiCall the_request] \<or>
   (\<exists>t. trace (snd (run lib out env)) = [ApiCall the_request, Print t])"
proof (cases "send_request lib (initial out env)")
  case (Pair res p)
  show ?thesis
  proof (cases res)
    case (Inl e)
    with Pair have "run lib out env = (Some e, p)"
      by (simp add: run_def main_failed)
    with send_request_trace [of lib "initial out env"] Pair show ?thesis
      by (auto simp: initial_def)
  next
    case (Inr r)
    with Pair have recv: "send_request lib (initial out env) = (Inr r, p)" by simp
    from print_response_trace [of r p] run_received [OF recv] received_state [OF recv]
    show ?thesis by auto
  qed
qed

text \<open>
  C6. Every request a run sends has a message list of exactly one entry, so not an empty
  one, and the role of that first and only entry is \<^verbatim>\<open>user\<close>.
\<close>

theorem request_has_one_user_message:
  assumes "ApiCall q \<in> set (trace (snd (run lib out env)))"
  shows "messages q \<noteq> [] \<and>
         length (messages q) = 1 \<and>
         map_of (hd (messages q)) ''role'' = Some ''user''"
proof -
  from assms run_trace [of lib out env] have "q = the_request"
    by auto
  then show ?thesis by (simp add: the_request_def)
qed

theorem request_has_one_user_message_witness:
  "ApiCall the_request
     \<in> set (trace (snd (run (stub_sdk None None (Inr \<lparr>content = [TextBlock (unicode ''hi'')]\<rparr>))
                             utf8_stdout env_with_key))) \<and>
   messages the_request \<noteq> [] \<and>
   length (messages the_request) = 1 \<and>
   map_of (hd (messages the_request)) ''role'' = Some ''user''"
proof -
  have sent: "ApiCall the_request
     \<in> set (trace (snd (run (stub_sdk None None (Inr \<lparr>content = [TextBlock (unicode ''hi'')]\<rparr>))
                             utf8_stdout env_with_key)))"
    by (simp add: run_stub_text [OF utf8_hi])
  from request_has_one_user_message [OF sent] sent show ?thesis by blast
qed

text \<open>
  C7 (as amended). In every run \<^verbatim>\<open>client.messages.create\<close> is called at most once and
  there is at most one \<^verbatim>\<open>print\<close>, and the run has no other effect: its whole trace is
  empty, or the one call, or the one call followed by the one \<^verbatim>\<open>print\<close>. When
  \<^verbatim>\<open>load_dotenv\<close> and the client constructor return, the call is made exactly once, with
  the fixed request, the HTTP requests of the run are those the library sends during
  that call, and the environment is the one \<^verbatim>\<open>load_dotenv\<close> left. When one of the two
  raises, the run makes no call, sends no HTTP request and writes nothing.
\<close>

theorem effects_bounded:
  "length (filter is_ApiCall (trace (snd (run lib out env)))) \<le> 1 \<and>
   length (filter is_Print (trace (snd (run lib out env)))) \<le> 1 \<and>
   (trace (snd (run lib out env)) = [] \<or>
    trace (snd (run lib out env)) = [ApiCall the_request] \<or>
    (\<exists>t. trace (snd (run lib out env)) = [ApiCall the_request, Print t])) \<and>
   (load_dotenv lib env = Inr env' \<and> Anthropic lib env' (env' ''ANTHROPIC_API_KEY'') = Inr client
      \<longrightarrow> filter is_ApiCall (trace (snd (run lib out env))) = [ApiCall the_request] \<and>
          http_sent (snd (run lib out env)) = http_requests lib client the_request \<and>
          os_environ (snd (run lib out env)) = env') \<and>
   (load_dotenv lib env = Inl e
      \<longrightarrow> trace (snd (run lib out env)) = [] \<and>
          http_sent (snd (run lib out env)) = 0 \<and>
          stdout (snd (run lib out env)) = [] \<and>
          os_environ (snd (run lib out env)) = env) \<and>
   (load_dotenv lib env = Inr env' \<and> Anthropic lib env' (env' ''ANTHROPIC_API_KEY'') = Inl e
      \<longrightarrow> trace (snd (run lib out env)) = [] \<and>
          http_sent (snd (run lib out env)) = 0 \<and>
          stdout (snd (run lib out env)) = [] \<and>
          os_environ (snd (run lib out env)) = env')"
proof (intro conjI impI)
  show "length (filter is_ApiCall (trace (snd (run lib out env)))) \<le> 1"
    using run_trace [of lib out env] by auto
  show "length (filter is_Print (trace (snd (run lib out env)))) \<le> 1"
    using run_trace [of lib out env] by auto
  show "trace (snd (run lib out env)) = [] \<or>
        trace (snd (run lib out env)) = [ApiCall the_request] \<or>
        (\<exists>t. trace (snd (run lib out env)) = [ApiCall the_request, Print t])"
    by (rule run_trace)
next
  assume a: "load_dotenv lib env = Inr env' \<and>
             Anthropic lib env' (env' ''ANTHROPIC_API_KEY'') = Inr client"
  then have called:
    "filter is_ApiCall (trace (snd (run lib out env))) = [ApiCall the_request] \<and>
     http_sent (snd (run lib out env)) = http_requests lib client the_request \<and>
     os_environ (snd (run lib out env)) = env'"
    using run_called [of lib env env' client out] by blast
  from called show "filter is_ApiCall (trace (snd (run lib out env))) = [ApiCall the_request]"
    by blast
  from called show "http_sent (snd (run lib out env)) = http_requests lib client the_request"
    by blast
  from called show "os_environ (snd (run lib out env)) = env'"
    by blast
next
  assume "load_dotenv lib env = Inl e"
  then have run: "run lib out env = (Some e, initial out env)"
    by (rule run_load_failed)
  from run show "trace (snd (run lib out env)) = []" by (simp add: initial_def)
  from run show "http_sent (snd (run lib out env)) = 0" by (simp add: initial_def)
  from run show "stdout (snd (run lib out env)) = []" by (simp add: initial_def)
  from run show "os_environ (snd (run lib out env)) = env" by (simp add: initial_def)
next
  assume "load_dotenv lib env = Inr env' \<and>
          Anthropic lib env' (env' ''ANTHROPIC_API_KEY'') = Inl e"
  then have run: "run lib out env = (Some e, (initial out env)\<lparr>os_environ := env'\<rparr>)"
    using run_constructor_failed [of lib env env' e out] by blast
  from run show "trace (snd (run lib out env)) = []" by (simp add: initial_def)
  from run show "http_sent (snd (run lib out env)) = 0" by (simp add: initial_def)
  from run show "stdout (snd (run lib out env)) = []" by (simp add: initial_def)
  from run show "os_environ (snd (run lib out env)) = env'" by (simp add: initial_def)
qed

theorem effects_bounded_witness:
  "length (filter is_ApiCall (trace (snd
      (run (stub_sdk None None (Inr \<lparr>content = [TextBlock (unicode ''hi'')]\<rparr>))
           utf8_stdout env_with_key)))) \<le> 1 \<and>
   length (filter is_Print (trace (snd
      (run (stub_sdk None None (Inr \<lparr>content = [TextBlock (unicode ''hi'')]\<rparr>))
           utf8_stdout env_with_key)))) \<le> 1 \<and>
   filter is_ApiCall (trace (snd
      (run (stub_sdk None None (Inr \<lparr>content = [TextBlock (unicode ''hi'')]\<rparr>))
           utf8_stdout env_with_key)))
     = [ApiCall the_request] \<and>
   http_sent (snd (run (retrying_sdk 3 (Inl RateLimitError)) utf8_stdout env_with_key)) = 3 \<and>
   trace (snd (run (stub_sdk (Some (OtherError ''unreadable .env'')) None (Inl RateLimitError))
                   utf8_stdout env_with_key)) = [] \<and>
   trace (snd (run (stub_sdk None (Some (OtherError ''bad proxy'')) (Inl RateLimitError))
                   utf8_stdout env_with_key)) = [] \<and>
   http_sent (snd (run (stub_sdk None (Some (OtherError ''bad proxy'')) (Inl RateLimitError))
                       utf8_stdout env_with_key)) = 0"
proof -
  have ok:
    "length (filter is_ApiCall (trace (snd
        (run (stub_sdk None None (Inr \<lparr>content = [TextBlock (unicode ''hi'')]\<rparr>))
             utf8_stdout env_with_key)))) \<le> 1 \<and>
     length (filter is_Print (trace (snd
        (run (stub_sdk None None (Inr \<lparr>content = [TextBlock (unicode ''hi'')]\<rparr>))
             utf8_stdout env_with_key)))) \<le> 1 \<and>
     filter is_ApiCall (trace (snd
        (run (stub_sdk None None (Inr \<lparr>content = [TextBlock (unicode ''hi'')]\<rparr>))
             utf8_stdout env_with_key)))
       = [ApiCall the_request]"
    using effects_bounded
      [where lib = "stub_sdk None None (Inr \<lparr>content = [TextBlock (unicode ''hi'')]\<rparr>)"
         and out = utf8_stdout and env = env_with_key and env' = env_with_key
         and client = "env_with_key ''ANTHROPIC_API_KEY''"]
    by (simp add: stub_sdk_def)
  have retry:
    "http_sent (snd (run (retrying_sdk 3 (Inl RateLimitError)) utf8_stdout env_with_key)) = 3"
    using effects_bounded
      [where lib = "retrying_sdk 3 (Inl RateLimitError)"
         and out = utf8_stdout and env = env_with_key and env' = env_with_key
         and client = "env_with_key ''ANTHROPIC_API_KEY''"]
    by (simp add: retrying_sdk_def stub_sdk_def)
  have load:
    "trace (snd (run (stub_sdk (Some (OtherError ''unreadable .env'')) None (Inl RateLimitError))
                     utf8_stdout env_with_key)) = []"
    using effects_bounded
      [where lib = "stub_sdk (Some (OtherError ''unreadable .env'')) None (Inl RateLimitError)"
         and out = utf8_stdout and env = env_with_key and e = "OtherError ''unreadable .env''"]
    by (simp add: stub_sdk_def)
  have ctor:
    "trace (snd (run (stub_sdk None (Some (OtherError ''bad proxy'')) (Inl RateLimitError))
                     utf8_stdout env_with_key)) = [] \<and>
     http_sent (snd (run (stub_sdk None (Some (OtherError ''bad proxy'')) (Inl RateLimitError))
                         utf8_stdout env_with_key)) = 0"
    using effects_bounded
      [where lib = "stub_sdk None (Some (OtherError ''bad proxy'')) (Inl RateLimitError)"
         and out = utf8_stdout and env = env_with_key and env' = env_with_key
         and e = "OtherError ''bad proxy''"]
    by (simp add: stub_sdk_def)
  from ok retry load ctor show ?thesis by blast
qed

text \<open>
  The claim C7 as written fails twice. In a run whose client constructor raises, the
  number of API calls is not one (there is none). And the network requests of a run are
  not one for each run that makes its call: a library that retries sends three for the
  one call, and a library that rejects a missing key before sending sends none.
\<close>

theorem one_api_call_counterexample:
  "length (filter is_ApiCall (trace (snd
      (run (stub_sdk None (Some (OtherError ''bad proxy''))
              (Inr \<lparr>content = [TextBlock (unicode ''hi'')]\<rparr>))
           utf8_stdout env_with_key)))) \<noteq> 1 \<and>
   filter is_ApiCall (trace (snd (run (retrying_sdk 3 (Inl RateLimitError))
                                      utf8_stdout env_with_key))) = [ApiCall the_request] \<and>
   http_sent (snd (run (retrying_sdk 3 (Inl RateLimitError)) utf8_stdout env_with_key)) \<noteq> 1 \<and>
   filter is_ApiCall (trace (snd (run (keyed_sdk (Inr \<lparr>content = [TextBlock (unicode ''hi'')]\<rparr>))
                                      utf8_stdout env_without_key))) = [ApiCall the_request] \<and>
   http_sent (snd (run (keyed_sdk (Inr \<lparr>content = [TextBlock (unicode ''hi'')]\<rparr>))
                       utf8_stdout env_without_key)) \<noteq> 1"
  by (simp add: run_def main_def send_request_def stub_sdk_def retrying_sdk_def keyed_sdk_def
        initial_def os_getenv_def env_without_key_def env_with_key_def)

subsection \<open>What the output depends on\<close>

text \<open>
  C8. Only the first content block is read. If two runs with the same standard output
  stream, with any libraries and any environments, receive responses whose content
  lists start alike (the same first block, or both empty), then they write the same
  standard output and end the same way, whatever follows the first block.
\<close>

theorem only_first_block_consumed:
  assumes "send_request lib1 (initial out env1) = (Inr r1, p1)"
    and "send_request lib2 (initial out env2) = (Inr r2, p2)"
    and "take 1 (content r1) = take 1 (content r2)"
  shows "stdout (snd (run lib1 out env1)) = stdout (snd (run lib2 out env2)) \<and>
         fst (run lib1 out env1) = fst (run lib2 out env2)"
proof -
  from received_state [OF assms(1)] received_state [OF assms(2)]
  have "stdout p1 = stdout p2" and "sys_stdout p1 = sys_stdout p2" by simp_all
  with print_response_take_1 [OF assms(3)]
  have "fst (print_response r1 p1) = fst (print_response r2 p2) \<and>
        stdout (snd (print_response r1 p1)) = stdout (snd (print_response r2 p2))"
    by blast
  then show ?thesis
    by (simp add: run_received [OF assms(1)] run_received [OF assms(2)])
qed

theorem only_first_block_consumed_witness:
  "take 1 (content \<lparr>content = [TextBlock (unicode ''hi''), OtherBlock ''tool_use'']\<rparr>)
     = take 1 (content \<lparr>content = [TextBlock (unicode ''hi''), TextBlock (unicode ''there''),
                                    TextBlock [0xE9]]\<rparr>) \<and>
   stdout (snd (run (stub_sdk None None
                      (Inr \<lparr>content = [TextBlock (unicode ''hi''), OtherBlock ''tool_use'']\<rparr>))
                    utf8_stdout env_with_key))
     = stdout (snd (run (stub_sdk None None
                      (Inr \<lparr>content = [TextBlock (unicode ''hi''), TextBlock (unicode ''there''),
                                       TextBlock [0xE9]]\<rparr>))
                    utf8_stdout env_without_key)) \<and>
   fst (run (stub_sdk None None
              (Inr \<lparr>content = [TextBlock (unicode ''hi''), OtherBlock ''tool_use'']\<rparr>))
            utf8_stdout env_with_key)
     = fst (run (stub_sdk None None
              (Inr \<lparr>content = [TextBlock (unicode ''hi''), TextBlock (unicode ''there''),
                               TextBlock [0xE9]]\<rparr>))
            utf8_stdout env_without_key)"
proof -
  let ?r1 = "\<lparr>content = [TextBlock (unicode ''hi''), OtherBlock ''tool_use'']\<rparr>"
  let ?r2 = "\<lparr>content = [TextBlock (unicode ''hi''), TextBlock (unicode ''there''),
                         TextBlock [0xE9]]\<rparr>"
  have same: "take 1 (content ?r1) = take 1 (content ?r2)" by simp
  from only_first_block_consumed
    [OF send_request_stub [of "Inr ?r1" utf8_stdout env_with_key]
        send_request_stub [of "Inr ?r2" utf8_stdout env_without_key] same] same
  show ?thesis by blast
qed

text \<open>
  C9 (as amended). The script never writes the credential itself. If two runs receive the
  same response (two runs that differ only in the credential value in particular: the
  libraries and environments of the two are arbitrary, the standard output stream is
  the same), they write the same standard output, have the same effects and end the
  same way. The output is empty or it is exactly the encoded text of the response's
  first block followed by the line terminator of \<^verbatim>\<open>print\<close>; so a credential that is not
  the empty string is in the output only if it is in those bytes.
\<close>

theorem output_independent_of_credential:
  assumes "send_request lib1 (initial out env1) = (Inr r, p1)"
    and "send_request lib2 (initial out env2) = (Inr r, p2)"
  shows "stdout (snd (run lib1 out env1)) = stdout (snd (run lib2 out env2)) \<and>
         trace (snd (run lib1 out env1)) = trace (snd (run lib2 out env2)) \<and>
         fst (run lib1 out env1) = fst (run lib2 out env2) \<and>
         (stdout (snd (run lib1 out env1)) = [] \<or>
          (\<exists>t rest bs. content r = TextBlock t # rest \<and> encode out t = Some bs \<and>
             stdout (snd (run lib1 out env1)) = bs @ terminator out)) \<and>
         (\<forall>key. key \<noteq> [] \<and> sublist key (stdout (snd (run lib1 out env1))) \<longrightarrow>
            (\<exists>t rest bs. content r = TextBlock t # rest \<and> encode out t = Some bs \<and>
               sublist key (bs @ terminator out)))"
proof -
  note s1 = received_state [OF assms(1)] and s2 = received_state [OF assms(2)]
  have out: "fst (print_response r p1) = fst (print_response r p2) \<and>
             stdout (snd (print_response r p1)) = stdout (snd (print_response r p2))"
    using print_response_take_1 [of r r p1 p2] s1 s2 by simp
  have tr: "trace (snd (print_response r p1)) = trace (snd (print_response r p2))"
    using s1 s2
    by (cases "getitem (content r) 0")
       (simp_all add: print_response_def print_def split: option.splits)
  have shape: "stdout (snd (print_response r p1)) = [] \<or>
          (\<exists>t rest bs. content r = TextBlock t # rest \<and> encode out t = Some bs \<and>
             stdout (snd (print_response r p1)) = bs @ terminator out)"
    using print_response_stdout [of r p1] s1 by simp
  have only: "\<forall>key. key \<noteq> [] \<and> sublist key (stdout (snd (print_response r p1))) \<longrightarrow>
            (\<exists>t rest bs. content r = TextBlock t # rest \<and> encode out t = Some bs \<and>
               sublist key (bs @ terminator out))"
    using shape by auto
  from out tr shape only show ?thesis
    by (simp add: run_received [OF assms(1)] run_received [OF assms(2)])
qed

theorem output_independent_of_credential_witness:
  "stdout (snd (run (stub_sdk None None (Inr \<lparr>content = [TextBlock (unicode ''hi'')]\<rparr>))
                    utf8_stdout env_with_key))
     = stdout (snd (run (stub_sdk None None (Inr \<lparr>content = [TextBlock (unicode ''hi'')]\<rparr>))
                        utf8_stdout env_with_other_key)) \<and>
   trace (snd (run (stub_sdk None None (Inr \<lparr>content = [TextBlock (unicode ''hi'')]\<rparr>))
                   utf8_stdout env_with_key))
     = trace (snd (run (stub_sdk None None (Inr \<lparr>content = [TextBlock (unicode ''hi'')]\<rparr>))
                       utf8_stdout env_with_other_key)) \<and>
   stdout (snd (run (stub_sdk None None (Inr \<lparr>content = [TextBlock (unicode ''hi'')]\<rparr>))
                    utf8_stdout env_with_key))
     = ''hi'' @ [CHR 0x0A] \<and>
   sublist ''i'' (stdout (snd (run (stub_sdk None None
                                      (Inr \<lparr>content = [TextBlock (unicode ''hi'')]\<rparr>))
                                    utf8_stdout env_with_key))) \<and>
   sublist ''i'' (''hi'' @ terminator utf8_stdout)"
proof -
  let ?r = "\<lparr>content = [TextBlock (unicode ''hi'')]\<rparr>"
  have nl: "terminator utf8_stdout = [CHR 0x0A]"
    by (simp add: utf8_stdout_def)
  have printed: "stdout (snd (run (stub_sdk None None (Inr ?r)) utf8_stdout env_with_key))
                   = ''hi'' @ [CHR 0x0A]"
    using nl by (simp add: run_stub_text [OF utf8_hi])
  have inside: "sublist ''i'' (''hi'' @ [CHR 0x0A])"
    using sublist_appendI [of "''i''" "''h''" "[CHR 0x0A]"] by simp
  from output_independent_of_credential
    [OF send_request_stub [of "Inr ?r" utf8_stdout env_with_key]
        send_request_stub [of "Inr ?r" utf8_stdout env_with_other_key]]
    printed inside nl
  show ?thesis by simp
qed

text \<open>
  The claim C9 as written fails in its last part. Two runs differ only in the credential
  (\<^verbatim>\<open>valid-key-123\<close> in the first) and receive the same response, a text block that
  holds the first credential; that credential is in the output of the first run.
\<close>

theorem credential_in_output_counterexample:
  "os_getenv (initial utf8_stdout env_with_key) ''ANTHROPIC_API_KEY'' = Some ''valid-key-123'' \<and>
   os_getenv (initial utf8_stdout env_with_other_key) ''ANTHROPIC_API_KEY''
     = Some ''another-key-456'' \<and>
   fst (send_request (stub_sdk None None (Inr \<lparr>content = [TextBlock (unicode ''valid-key-123'')]\<rparr>))
          (initial utf8_stdout env_with_key))
     = fst (send_request
          (stub_sdk None None (Inr \<lparr>content = [TextBlock (unicode ''valid-key-123'')]\<rparr>))
          (initial utf8_stdout env_with_other_key)) \<and>
   sublist ''valid-key-123''
     (stdout (snd (run (stub_sdk None None
                          (Inr \<lparr>content = [TextBlock (unicode ''valid-key-123'')]\<rparr>))
                       utf8_stdout env_with_key)))"
proof -
  have keys:
    "os_getenv (initial utf8_stdout env_with_key) ''ANTHROPIC_API_KEY'' = Some ''valid-key-123''"
    "os_getenv (initial utf8_stdout env_with_other_key) ''ANTHROPIC_API_KEY''
       = Some ''another-key-456''"
    by (simp_all add: os_getenv_def initial_def env_with_key_def env_with_other_key_def)
  have printed:
    "stdout (snd (run (stub_sdk None None
                         (Inr \<lparr>content = [TextBlock (unicode ''valid-key-123'')]\<rparr>))
                      utf8_stdout env_with_key))
       = ''valid-key-123'' @ terminator utf8_stdout"
    by (simp add: run_stub_text [OF utf8_the_key])
  have "sublist ''valid-key-123'' (''valid-key-123'' @ terminator utf8_stdout)"
    using sublist_appendI [of "''valid-key-123''" "[]" "terminator utf8_stdout"] by simp
  with keys printed show ?thesis
    by (simp add: send_request_stub)
qed

subsection \<open>The order of loading and reading\<close>

text \<open>
  The key handed to the client constructor is read after \<^verbatim>\<open>load_dotenv\<close> has returned,
  from the environment it left behind. What \<^verbatim>\<open>load_dotenv\<close> puts there is the package's
  business, not the script's.
\<close>

lemma key_read_after_load_dotenv:
  assumes "load_dotenv lib env = Inr env'"
    and "Anthropic lib env' (env' ''ANTHROPIC_API_KEY'') = Inr client"
  shows "fst (send_request lib (initial out env)) = messages_create lib client the_request \<and>
         os_environ (snd (send_request lib (initial out env))) = env'"
  using send_request_called [of lib "initial out env" env' client] assms
  by (simp add: initial_def)

end
